theory Spec2Isabelle
  imports Complex_Main "HOL-Library.Word" "HOL-Library.Signed_Division"
begin

section \<open>Machine numbers\<close>

text \<open>
  The C++ type \<^verbatim>\<open>int\<close> is a 32-bit two's complement integer. It is a \<open>32 word\<close>
  here, read as signed by \<open>sint\<close>. Signed overflow has no defined meaning in C++; the
  model gives it the meaning the hardware gives it, wrap-around modulo \<open>2 ^ 32\<close>.
\<close>

type_synonym int32 = "32 word"

text \<open>
  \<^verbatim>\<open>a / b\<close> on \<^verbatim>\<open>int\<close> truncates towards zero, whereas \<open>div\<close> rounds down. The only
  divisor in the sources is the constant 2, so the quotient always fits.
\<close>

definition int_div :: "int32 \<Rightarrow> int32 \<Rightarrow> int32" where
  "int_div a b = word_of_int (sint a sdiv sint b)"

text \<open>
  A \<^verbatim>\<open>double\<close> is a finite value, an infinity or a NaN. A finite value is the real number
  it denotes; the sign of zero is not modelled. Arithmetic follows IEEE 754: the result
  of an operation on finite values is the exact result, rounded to a double by the
  platform's rounding, the parameter \<open>rnd\<close>; division by zero and the comparisons with
  NaN raise nothing. \<^verbatim>\<open>float\<close> is modelled the same way.
\<close>

datatype double = Finite real | PosInf | NegInf | NaN

type_synonym float = double

text \<open>\<^verbatim>\<open>static_cast<double>(n)\<close> and the implicit conversion of an \<^verbatim>\<open>int\<close> operand.\<close>

definition double_of_int :: "int32 \<Rightarrow> double" where
  "double_of_int n = Finite (real_of_int (sint n))"

text \<open>\<^verbatim>\<open>a * b\<close> and \<^verbatim>\<open>a / b\<close> on doubles.\<close>

fun dmul :: "(real \<Rightarrow> double) \<Rightarrow> double \<Rightarrow> double \<Rightarrow> double" where
  "dmul rnd NaN b = NaN"
| "dmul rnd a NaN = NaN"
| "dmul rnd (Finite a) (Finite b) = rnd (a * b)"
| "dmul rnd (Finite a) PosInf = (if a = 0 then NaN else if 0 < a then PosInf else NegInf)"
| "dmul rnd (Finite a) NegInf = (if a = 0 then NaN else if 0 < a then NegInf else PosInf)"
| "dmul rnd PosInf (Finite b) = (if b = 0 then NaN else if 0 < b then PosInf else NegInf)"
| "dmul rnd NegInf (Finite b) = (if b = 0 then NaN else if 0 < b then NegInf else PosInf)"
| "dmul rnd PosInf PosInf = PosInf"
| "dmul rnd PosInf NegInf = NegInf"
| "dmul rnd NegInf PosInf = NegInf"
| "dmul rnd NegInf NegInf = PosInf"

fun ddiv :: "(real \<Rightarrow> double) \<Rightarrow> double \<Rightarrow> double \<Rightarrow> double" where
  "ddiv rnd NaN b = NaN"
| "ddiv rnd a NaN = NaN"
| "ddiv rnd (Finite a) (Finite b) =
     (if b = 0 then (if a = 0 then NaN else if 0 < a then PosInf else NegInf)
      else rnd (a / b))"
| "ddiv rnd (Finite a) PosInf = Finite 0"
| "ddiv rnd (Finite a) NegInf = Finite 0"
| "ddiv rnd PosInf (Finite b) = (if 0 \<le> b then PosInf else NegInf)"
| "ddiv rnd NegInf (Finite b) = (if 0 \<le> b then NegInf else PosInf)"
| "ddiv rnd PosInf PosInf = NaN"
| "ddiv rnd PosInf NegInf = NaN"
| "ddiv rnd NegInf PosInf = NaN"
| "ddiv rnd NegInf NegInf = NaN"

text \<open>
  What the sources take from the platform: the rounding \<open>fl\<close> of an exact result to a
  double, and OpenCV's \<^verbatim>\<open>cvRound\<close> of a double to an \<^verbatim>\<open>int\<close>, which breaks ties and treats
  values out of range as the build of OpenCV has it.
\<close>

record platform =
  fl :: "real \<Rightarrow> double"
  cvRound :: "double \<Rightarrow> int32"

text \<open>\<^verbatim>\<open>a < b\<close> and \<^verbatim>\<open>a > b\<close> on doubles: false as soon as one side is a NaN.\<close>

fun dless :: "double \<Rightarrow> double \<Rightarrow> bool" where
  "dless NaN b = False"
| "dless a NaN = False"
| "dless (Finite a) (Finite b) = (a < b)"
| "dless (Finite a) PosInf = True"
| "dless (Finite a) NegInf = False"
| "dless PosInf b = False"
| "dless NegInf (Finite b) = True"
| "dless NegInf PosInf = True"
| "dless NegInf NegInf = False"


text \<open>\<^verbatim>\<open>a >= 0\<close> and \<^verbatim>\<open>a > 0\<close>, the two conditions the data model puts on fields.\<close>

definition nonneg :: "double \<Rightarrow> bool" where
  "nonneg a = (a = Finite 0 \<or> dless (Finite 0) a)"

definition positive :: "double \<Rightarrow> bool" where
  "positive a = dless (Finite 0) a"

section \<open>Sample.hpp\<close>

text \<open>
  The class has two static members, shared by all samples. They are the global state
  that constructors and static setters pass on.
\<close>

record statics =
  aspectRatio :: double
  nextClusterId :: int32

text \<open>
  The fields of a sample. \<^verbatim>\<open>x\<close>, \<^verbatim>\<open>y\<close> and \<^verbatim>\<open>size\<close> are \<open>sample_x\<close>, \<open>sample_y\<close>
  and \<open>sample_size\<close>; the other fields keep their names.
\<close>

record Sample =
  sample_x :: int32
  sample_y :: int32
  sample_size :: int32
  vx :: int32
  vy :: int32
  vsize :: float
  weight :: double
  object :: bool
  clusterId :: int32

text \<open>\<^verbatim>\<open>cv::Rect\<close>: top-left corner, width and height.\<close>

record Rect =
  rect_x :: int32
  rect_y :: int32
  rect_width :: int32
  rect_height :: int32

subsection \<open>Constructors\<close>

text \<open>
  The three constructors, named by their number of arguments. Each reads the counter
  into \<open>clusterId\<close> and leaves the counter incremented (\<^verbatim>\<open>nextClusterId++\<close>).
\<close>

definition Sample0 :: "statics \<Rightarrow> Sample \<times> statics" where
  "Sample0 g =
     (\<lparr>sample_x = 0, sample_y = 0, sample_size = 0, vx = 0, vy = 0, vsize = Finite 1,
       weight = Finite 1, object = False, clusterId = nextClusterId g\<rparr>,
      g\<lparr>nextClusterId := nextClusterId g + 1\<rparr>)"

definition Sample3 :: "int32 \<Rightarrow> int32 \<Rightarrow> int32 \<Rightarrow> statics \<Rightarrow> Sample \<times> statics" where
  "Sample3 px py psize g =
     (\<lparr>sample_x = px, sample_y = py, sample_size = psize, vx = 0, vy = 0, vsize = Finite 1,
       weight = Finite 1, object = False, clusterId = nextClusterId g\<rparr>,
      g\<lparr>nextClusterId := nextClusterId g + 1\<rparr>)"

definition Sample6 ::
  "int32 \<Rightarrow> int32 \<Rightarrow> int32 \<Rightarrow> int32 \<Rightarrow> int32 \<Rightarrow> float \<Rightarrow> statics \<Rightarrow> Sample \<times> statics" where
  "Sample6 px py psize pvx pvy pvsize g =
     (\<lparr>sample_x = px, sample_y = py, sample_size = psize, vx = pvx, vy = pvy,
       vsize = pvsize, weight = Finite 1, object = False, clusterId = nextClusterId g\<rparr>,
      g\<lparr>nextClusterId := nextClusterId g + 1\<rparr>)"

text \<open>
  The class declares no copy constructor and no assignment operator, so the compiler's
  are used: they copy every field, \<open>clusterId\<close> included, and touch no static member.
\<close>

definition Sample_copy :: "Sample \<Rightarrow> statics \<Rightarrow> Sample \<times> statics" where
  "Sample_copy other g = (other, g)"

subsection \<open>Accessors\<close>

definition getX :: "Sample \<Rightarrow> int32" where "getX s = sample_x s"
definition getY :: "Sample \<Rightarrow> int32" where "getY s = sample_y s"
definition getSize :: "Sample \<Rightarrow> int32" where "getSize s = sample_size s"
definition getVx :: "Sample \<Rightarrow> int32" where "getVx s = vx s"
definition getVy :: "Sample \<Rightarrow> int32" where "getVy s = vy s"
definition getVSize :: "Sample \<Rightarrow> float" where "getVSize s = vsize s"
definition getWeight :: "Sample \<Rightarrow> double" where "getWeight s = weight s"
definition isObject :: "Sample \<Rightarrow> bool" where "isObject s = object s"
definition getClusterId :: "Sample \<Rightarrow> int32" where "getClusterId s = clusterId s"

definition setX :: "int32 \<Rightarrow> Sample \<Rightarrow> Sample" where "setX v s = s\<lparr>sample_x := v\<rparr>"
definition setY :: "int32 \<Rightarrow> Sample \<Rightarrow> Sample" where "setY v s = s\<lparr>sample_y := v\<rparr>"
definition setSize :: "int32 \<Rightarrow> Sample \<Rightarrow> Sample" where "setSize v s = s\<lparr>sample_size := v\<rparr>"
definition setVx :: "int32 \<Rightarrow> Sample \<Rightarrow> Sample" where "setVx v s = s\<lparr>vx := v\<rparr>"
definition setVy :: "int32 \<Rightarrow> Sample \<Rightarrow> Sample" where "setVy v s = s\<lparr>vy := v\<rparr>"
definition setVSize :: "float \<Rightarrow> Sample \<Rightarrow> Sample" where "setVSize v s = s\<lparr>vsize := v\<rparr>"
definition setWeight :: "double \<Rightarrow> Sample \<Rightarrow> Sample" where "setWeight v s = s\<lparr>weight := v\<rparr>"
definition setObject :: "bool \<Rightarrow> Sample \<Rightarrow> Sample" where "setObject v s = s\<lparr>object := v\<rparr>"

subsection \<open>Width, height and bounds\<close>

text \<open>
  The methods are \<^verbatim>\<open>const\<close>: they read the sample and the statics and return a value.
  Those that compute with doubles take the platform \<open>p\<close>.
\<close>

definition getWidth :: "Sample \<Rightarrow> int32" where
  "getWidth s = sample_size s"

definition getHeight :: "platform \<Rightarrow> statics \<Rightarrow> Sample \<Rightarrow> int32" where
  "getHeight p g s = cvRound p (dmul (fl p) (aspectRatio g) (double_of_int (sample_size s)))"

definition getBounds :: "platform \<Rightarrow> statics \<Rightarrow> Sample \<Rightarrow> Rect" where
  "getBounds p g s =
     \<lparr>rect_x = sample_x s - int_div (getWidth s) 2,
      rect_y = sample_y s - int_div (getHeight p g s) 2,
      rect_width = getWidth s,
      rect_height = getHeight p g s\<rparr>"

subsection \<open>Comparisons\<close>





subsection \<open>Static setters\<close>

definition setAspectRatio :: "double \<Rightarrow> statics \<Rightarrow> statics" where
  "setAspectRatio r g = g\<lparr>aspectRatio := r\<rparr>"

definition setAspectRatio2 :: "platform \<Rightarrow> int32 \<Rightarrow> int32 \<Rightarrow> statics \<Rightarrow> statics" where
  "setAspectRatio2 p width height g =
     setAspectRatio (ddiv (fl p) (double_of_int height) (double_of_int width)) g"

subsection \<open>Calls in sequence\<close>

text \<open>
  A call of one of the three constructors, and a run of such calls in creation order,
  each on the statics the call before it left.
\<close>

datatype constructor_call =
  New0
| New3 int32 int32 int32
| New6 int32 int32 int32 int32 int32 float

fun call_constructor :: "constructor_call \<Rightarrow> statics \<Rightarrow> Sample \<times> statics" where
  "call_constructor New0 g = Sample0 g"
| "call_constructor (New3 px py psize) g = Sample3 px py psize g"
| "call_constructor (New6 px py psize pvx pvy pvsize) g = Sample6 px py psize pvx pvy pvsize g"

fun call_constructors :: "constructor_call list \<Rightarrow> statics \<Rightarrow> Sample list \<times> statics" where
  "call_constructors [] g = ([], g)"
| "call_constructors (c # cs) g =
     (case call_constructor c g of (s, g') \<Rightarrow>
        (case call_constructors cs g' of (ss, g'') \<Rightarrow> (s # ss, g'')))"

text \<open>A call of one of the eight setters of a sample: all its non-\<^verbatim>\<open>const\<close> methods.\<close>

datatype setter_call =
  SetX int32
| SetY int32
| SetSize int32
| SetVx int32
| SetVy int32
| SetVSize float
| SetWeight double
| SetObject bool

fun apply_setter :: "setter_call \<Rightarrow> Sample \<Rightarrow> Sample" where
  "apply_setter (SetX v) s = setX v s"
| "apply_setter (SetY v) s = setY v s"
| "apply_setter (SetSize v) s = setSize v s"
| "apply_setter (SetVx v) s = setVx v s"
| "apply_setter (SetVy v) s = setVy v s"
| "apply_setter (SetVSize v) s = setVSize v s"
| "apply_setter (SetWeight v) s = setWeight v s"
| "apply_setter (SetObject v) s = setObject v s"

section \<open>GrayscaleFilter.cpp\<close>

text \<open>
  \<^verbatim>\<open>cv::Mat\<close> as a value: its shape, its number of channels and its elements in row-major
  order. \<^verbatim>\<open>image.channels()\<close> reads the field \<open>channels\<close>; \<^verbatim>\<open>copyTo\<close> makes the
  destination equal to the source.
\<close>

record Mat =
  rows :: nat
  cols :: nat
  channels :: nat
  elems :: "nat list"

definition copyTo :: "Mat \<Rightarrow> Mat" where
  "copyTo m = m"

text \<open>
  \<^verbatim>\<open>cvtColor(src, dst, CV_BGR2GRAY)\<close> is OpenCV's. It is the parameter \<open>cvtColor\<close>, from the
  source image to the new value of the destination, or to the exception that OpenCV
  throws when it rejects the source. Neither method catches the exception.

  \<open>applyTo\<close> returns the pair of its return value and the new value of \<^verbatim>\<open>filtered\<close>.
  The argument \<^verbatim>\<open>image\<close> is \<open>img\<close>.
\<close>

definition applyTo :: "(Mat \<Rightarrow> 'e + Mat) \<Rightarrow> Mat \<Rightarrow> Mat \<Rightarrow> 'e + Mat \<times> Mat" where
  "applyTo cvtColor img filtered =
     (if 1 < channels img
      then (case cvtColor img of Inl e \<Rightarrow> Inl e | Inr gray \<Rightarrow> Inr (gray, gray))
      else Inr (copyTo img, copyTo img))"

definition applyInPlace :: "(Mat \<Rightarrow> 'e + Mat) \<Rightarrow> Mat \<Rightarrow> 'e + Mat" where
  "applyInPlace cvtColor img =
     (if 1 < channels img
      then (case cvtColor img of Inl e \<Rightarrow> Inl e | Inr tmp \<Rightarrow> Inr tmp)
      else Inr img)"

text \<open>
  One conversion to instantiate \<open>cvtColor\<close> in the examples: 8-bit BGR or BGRA to gray
  with OpenCV's fixed-point weights, an exception for any other number of channels.
\<close>

datatype cv_error = BadNumberOfChannels

fun gray_elems :: "nat \<Rightarrow> nat list \<Rightarrow> nat list" where
  "gray_elems cn (b # g # r # rest) =
     (b * 1868 + g * 9617 + r * 4899 + 8192) div 16384 # gray_elems cn (drop (cn - 3) rest)"
| "gray_elems cn rest = []"

definition bgr2gray :: "Mat \<Rightarrow> cv_error + Mat" where
  "bgr2gray src =
     (if channels src = 3 \<or> channels src = 4
      then Inr (src\<lparr>channels := 1, elems := gray_elems (channels src) (elems src)\<rparr>)
      else Inl BadNumberOfChannels)"

section \<open>ProbabilisticSvmClassifier.hpp\<close>

record ProbabilisticSvmClassifier =
  logisticA :: real
  logisticB :: real

text \<open>
  Modelled from the spec: \<^verbatim>\<open>ProbabilisticSvmClassifier::getProbability(double)\<close> is only
  declared in the header; its body, in ProbabilisticSvmClassifier.cpp, is not among the
  sources. The header documents the probability as the logistic function
  \<open>p(x) = 1 / (1 + exp(a + b * x))\<close> of the hyperplane distance \<open>x\<close>, with the fields
  \<open>logisticA\<close> and \<open>logisticB\<close> for \<open>a\<close> and \<open>b\<close>. The distance and the parameters are
  real numbers, and the binary result is that of the underlying SVM, a parameter.
\<close>

definition getProbability ::
  "(real \<Rightarrow> bool) \<Rightarrow> ProbabilisticSvmClassifier \<Rightarrow> real \<Rightarrow> bool \<times> real" where
  "getProbability svm_classify c hyperplaneDistance =
     (svm_classify hyperplaneDistance,
      1 / (1 + exp (logisticA c + logisticB c * hyperplaneDistance)))"

section \<open>Facts about the numbers\<close>

lemma sdiv_2_cases: "(k::int) sdiv 2 = (if 0 \<le> k then k div 2 else - ((- k) div 2))"
  by (auto simp: signed_divide_int_def sgn_if)

lemma sdiv_2_near: "\<bar>k - 2 * ((k::int) sdiv 2)\<bar> \<le> 1"
  unfolding sdiv_2_cases by auto

lemma sdiv_2_bounds:
  "- (2 ^ 31) \<le> (k::int) \<Longrightarrow> k < 2 ^ 31 \<Longrightarrow> - (2 ^ 31) \<le> k sdiv 2 \<and> k sdiv 2 < 2 ^ 31"
  unfolding sdiv_2_cases by auto

lemma sint_int32_range: "- (2 ^ 31) \<le> sint (w::int32) \<and> sint w < 2 ^ 31"
  using sint_ge [of w] sint_lt [of w] by simp

lemma sint_word_of_int_32:
  "- (2 ^ 31) \<le> k \<Longrightarrow> k < 2 ^ 31 \<Longrightarrow> sint (word_of_int k :: int32) = k"
  by (simp add: sint_sbintrunc' signed_take_bit_int_eq_self)

lemma sint_int_div_2: "sint (int_div w 2) = sint w sdiv 2"
proof -
  have "- (2 ^ 31) \<le> sint w sdiv 2 \<and> sint w sdiv 2 < 2 ^ 31"
    using sint_int32_range [of w] sdiv_2_bounds by blast
  then show ?thesis
    by (simp add: int_div_def sint_word_of_int_32)
qed

lemma sint_counter_plus:
  assumes "sint (n::int32) + int i < 2 ^ 31"
  shows "sint (n + of_nat i) = sint n + int i"
proof -
  have "n + of_nat i = word_of_int (sint n + int i)" by simp
  moreover have "- (2 ^ 31) \<le> sint n + int i" using sint_int32_range [of n] by linarith
  ultimately show ?thesis using assms by (simp only: sint_word_of_int_32)
qed

lemma ddiv_of_ints:
  "ddiv rnd (double_of_int h) (double_of_int w)
     = (if w = 0
        then (if h = 0 then NaN else if 0 < sint h then PosInf else NegInf)
        else rnd (real_of_int (sint h) / real_of_int (sint w)))"
proof -
  have w0: "(sint w = 0) = (w = 0)" by (simp add: signed_eq_0_iff)
  have h0: "(sint h = 0) = (h = 0)" by (simp add: signed_eq_0_iff)
  show ?thesis
    by (simp add: double_of_int_def w0 h0 del: of_int_sint)
qed

lemma dmul_of_int:
  "dmul rnd r (double_of_int n)
     = (case r of
          Finite a \<Rightarrow> rnd (a * real_of_int (sint n))
        | PosInf \<Rightarrow> (if n = 0 then NaN else if 0 < sint n then PosInf else NegInf)
        | NegInf \<Rightarrow> (if n = 0 then NaN else if 0 < sint n then NegInf else PosInf)
        | NaN \<Rightarrow> NaN)"
proof -
  have n0: "(sint n = 0) = (n = 0)" by (simp add: signed_eq_0_iff)
  show ?thesis
    by (cases r) (simp_all add: double_of_int_def n0 del: of_int_sint)
qed

lemma sint_sub_32: "sint ((a::int32) - b) = signed_take_bit 31 (sint a - sint b)"
  by (simp add: sint_word_ariths)


section \<open>Height and bounds of a sample\<close>

text \<open>
  C1. For every sample, \<open>getHeight\<close> returns the rounding of \<open>aspectRatio * size\<close>, where
  \<open>size\<close> is the sample's own field and \<open>aspectRatio\<close> is the one static value at the time
  of the call. For a finite ratio \<open>a\<close> the height is \<open>cvRound (fl (a * size))\<close>: the real
  product, rounded to a double and then to an \<^verbatim>\<open>int\<close>; for an infinite ratio the product
  is the infinity of the right sign, or NaN when the size is zero, and for a NaN it is
  NaN. A sample constructed under one ratio has, after \<open>setAspectRatio\<close>, the height
  computed from the new ratio; and samples of the same size have the same height.
\<close>

theorem getHeight_rounds_shared_ratio:
  "getHeight p g s = cvRound p (dmul (fl p) (aspectRatio g) (double_of_int (sample_size s)))
   \<and> getHeight p g s
       = cvRound p
          (case aspectRatio g of
             Finite a \<Rightarrow> fl p (a * real_of_int (sint (sample_size s)))
           | PosInf \<Rightarrow> (if sample_size s = 0 then NaN
                        else if 0 < sint (sample_size s) then PosInf else NegInf)
           | NegInf \<Rightarrow> (if sample_size s = 0 then NaN
                        else if 0 < sint (sample_size s) then NegInf else PosInf)
           | NaN \<Rightarrow> NaN)
   \<and> getHeight p (g\<lparr>aspectRatio := Finite a\<rparr>) s
       = cvRound p (fl p (a * real_of_int (sint (sample_size s))))
   \<and> getHeight p (setAspectRatio r (snd (Sample3 px py n g))) (fst (Sample3 px py n g))
       = cvRound p (dmul (fl p) r (double_of_int n))
   \<and> getHeight p (setAspectRatio (Finite a) (snd (Sample3 px py n g))) (fst (Sample3 px py n g))
       = cvRound p (fl p (a * real_of_int (sint n)))
   \<and> getHeight p g (s'\<lparr>sample_size := sample_size s\<rparr>) = getHeight p g s"
  by (simp add: getHeight_def setAspectRatio_def Sample3_def dmul_of_int)

text \<open>
  C2. For every sample, \<open>getBounds\<close> is a function of \<open>x\<close>, \<open>y\<close>, \<open>size\<close> and the
  shared aspect ratio alone: the rectangle of width \<open>getWidth = size\<close>, of height
  \<open>getHeight\<close>, which is \<open>cvRound (fl (a * size))\<close> for a finite ratio \<open>a\<close>, and of
  top-left corner \<open>(x - getWidth / 2, y - getHeight / 2)\<close> with the truncating division
  of C++. As integers, the corner is \<open>x - size sdiv 2\<close> and \<open>y - height sdiv 2\<close>, wrapped
  into 32 bits. No other field of the sample and no other static member changes the
  result. Adding half the width and half the height back to the corner gives \<open>(x, y)\<close>,
  and the half computed by the truncating division is within one of the exact half,
  doubled: \<open>(x, y)\<close> is the centre up to truncation. The method is \<^verbatim>\<open>const\<close>: it returns
  the rectangle and nothing else.
\<close>

theorem getBounds_rectangle:
  "getBounds p g s =
     \<lparr>rect_x = sample_x s - int_div (sample_size s) 2,
      rect_y = sample_y s
        - int_div (cvRound p (dmul (fl p) (aspectRatio g) (double_of_int (sample_size s)))) 2,
      rect_width = sample_size s,
      rect_height = cvRound p (dmul (fl p) (aspectRatio g) (double_of_int (sample_size s)))\<rparr>
   \<and> rect_width (getBounds p g s) = getWidth s
   \<and> rect_height (getBounds p g s) = getHeight p g s
   \<and> (let h = cvRound p
          (case aspectRatio g of
             Finite a \<Rightarrow> fl p (a * real_of_int (sint (sample_size s)))
           | PosInf \<Rightarrow> (if sample_size s = 0 then NaN
                        else if 0 < sint (sample_size s) then PosInf else NegInf)
           | NegInf \<Rightarrow> (if sample_size s = 0 then NaN
                        else if 0 < sint (sample_size s) then NegInf else PosInf)
           | NaN \<Rightarrow> NaN)
      in getBounds p g s =
           \<lparr>rect_x = sample_x s - int_div (sample_size s) 2,
            rect_y = sample_y s - int_div h 2,
            rect_width = sample_size s,
            rect_height = h\<rparr>)
   \<and> rect_height (getBounds p (g\<lparr>aspectRatio := Finite r\<rparr>) s)
       = cvRound p (fl p (r * real_of_int (sint (sample_size s))))
   \<and> sint (rect_x (getBounds p g s))
       = signed_take_bit 31 (sint (sample_x s) - sint (sample_size s) sdiv 2)
   \<and> sint (rect_y (getBounds p g s))
       = signed_take_bit 31 (sint (sample_y s) - sint (rect_height (getBounds p g s)) sdiv 2)
   \<and> getBounds p (g\<lparr>nextClusterId := k\<rparr>)
        (s\<lparr>vx := a, vy := b, vsize := c, weight := d, object := e, clusterId := f\<rparr>)
       = getBounds p g s
   \<and> rect_x (getBounds p g s) + int_div (rect_width (getBounds p g s)) 2 = sample_x s
   \<and> rect_y (getBounds p g s) + int_div (rect_height (getBounds p g s)) 2 = sample_y s
   \<and> sint (int_div w 2) = sint w sdiv 2
   \<and> \<bar>sint w - 2 * sint (int_div w 2)\<bar> \<le> 1"
proof -
  have rh: "rect_height (getBounds p g' s) = getHeight p g' s" for g'
    by (simp add: getBounds_def)
  have c1: "getBounds p g s =
     \<lparr>rect_x = sample_x s - int_div (sample_size s) 2,
      rect_y = sample_y s
        - int_div (cvRound p (dmul (fl p) (aspectRatio g) (double_of_int (sample_size s)))) 2,
      rect_width = sample_size s,
      rect_height = cvRound p (dmul (fl p) (aspectRatio g) (double_of_int (sample_size s)))\<rparr>"
    by (simp add: getBounds_def getWidth_def getHeight_def)
  have c2: "rect_width (getBounds p g s) = getWidth s"
    by (simp add: getBounds_def)
  have c4: "(let h = cvRound p
          (case aspectRatio g of
             Finite a \<Rightarrow> fl p (a * real_of_int (sint (sample_size s)))
           | PosInf \<Rightarrow> (if sample_size s = 0 then NaN
                        else if 0 < sint (sample_size s) then PosInf else NegInf)
           | NegInf \<Rightarrow> (if sample_size s = 0 then NaN
                        else if 0 < sint (sample_size s) then NegInf else PosInf)
           | NaN \<Rightarrow> NaN)
      in getBounds p g s =
           \<lparr>rect_x = sample_x s - int_div (sample_size s) 2,
            rect_y = sample_y s - int_div h 2,
            rect_width = sample_size s,
            rect_height = h\<rparr>)"
    by (simp add: getBounds_def getWidth_def getHeight_def dmul_of_int)
  have c5: "rect_height (getBounds p (g\<lparr>aspectRatio := Finite r\<rparr>) s)
       = cvRound p (fl p (r * real_of_int (sint (sample_size s))))"
    unfolding rh by (simp add: getHeight_def dmul_of_int)
  have c6: "sint (rect_x (getBounds p g s))
       = signed_take_bit 31 (sint (sample_x s) - sint (sample_size s) sdiv 2)"
    by (simp add: getBounds_def getWidth_def sint_sub_32 sint_int_div_2)
  have c7: "sint (rect_y (getBounds p g s))
       = signed_take_bit 31 (sint (sample_y s) - sint (rect_height (getBounds p g s)) sdiv 2)"
    by (simp add: getBounds_def sint_sub_32 sint_int_div_2)
  have c8: "getBounds p (g\<lparr>nextClusterId := k\<rparr>)
        (s\<lparr>vx := a, vy := b, vsize := c, weight := d, object := e, clusterId := f\<rparr>)
       = getBounds p g s"
    by (simp add: getBounds_def getWidth_def getHeight_def)
  have c9: "rect_x (getBounds p g s) + int_div (rect_width (getBounds p g s)) 2 = sample_x s"
    by (simp add: getBounds_def getWidth_def)
  have c10: "rect_y (getBounds p g s) + int_div (rect_height (getBounds p g s)) 2 = sample_y s"
    by (simp add: getBounds_def)
  have c11: "sint (int_div w 2) = sint w sdiv 2"
    by (rule sint_int_div_2)
  have c12: "\<bar>sint w - 2 * sint (int_div w 2)\<bar> \<le> 1"
    by (simp add: sint_int_div_2 sdiv_2_near)
  from c1 c2 rh [of g] c4 c5 c6 c7 c8 c9 c10 c11 c12 show ?thesis
    by (intro conjI)
qed

section \<open>Cluster identifiers\<close>

lemma call_constructor_clusterId: "clusterId (fst (call_constructor c g)) = nextClusterId g"
  by (cases c) (simp_all add: Sample0_def Sample3_def Sample6_def)

lemma call_constructor_statics:
  "snd (call_constructor c g) = g\<lparr>nextClusterId := nextClusterId g + 1\<rparr>"
  by (cases c) (simp_all add: Sample0_def Sample3_def Sample6_def)

text \<open>The identifiers that a run of constructor calls hands out, as machine integers.\<close>

lemma call_constructors_ids:
  "map clusterId (fst (call_constructors cs g))
     = map (\<lambda>i. nextClusterId g + of_nat i) [0..<length cs]"
proof (induction cs arbitrary: g)
  case Nil
  then show ?case by simp
next
  case (Cons c cs)
  obtain s g' where c: "call_constructor c g = (s, g')"
    by (cases "call_constructor c g")
  have s: "clusterId s = nextClusterId g"
    using call_constructor_clusterId [of c g] c by simp
  have g': "nextClusterId g' = nextClusterId g + 1"
    using call_constructor_statics [of c g] c by simp
  have "map clusterId (fst (call_constructors (c # cs) g))
      = clusterId s # map clusterId (fst (call_constructors cs g'))"
    using c by (simp split: prod.splits)
  also have "\<dots> = nextClusterId g # map (\<lambda>i. nextClusterId g' + of_nat i) [0..<length cs]"
    using Cons.IH [of g'] s by simp
  also have "\<dots> = map (\<lambda>i. nextClusterId g + of_nat i) [0..<length (c # cs)]"
    by (simp add: g' upt_rec [of 0 "Suc (length cs)"] map_Suc_upt [symmetric] ac_simps
        del: upt_Suc)
  finally show ?case .
qed

lemma call_constructors_sint_ids:
  assumes "sint (nextClusterId g) + int (length cs) \<le> 2 ^ 31"
  shows "map (sint \<circ> clusterId) (fst (call_constructors cs g))
    = map (\<lambda>i. sint (nextClusterId g) + int i) [0..<length cs]"
proof -
  have "map (sint \<circ> clusterId) (fst (call_constructors cs g))
      = map sint (map clusterId (fst (call_constructors cs g)))"
    by simp
  also have "\<dots> = map (\<lambda>i. sint (nextClusterId g + of_nat i)) [0..<length cs]"
    by (simp only: call_constructors_ids map_map comp_def)
  also have "\<dots> = map (\<lambda>i. sint (nextClusterId g) + int i) [0..<length cs]"
  proof (rule map_cong [OF refl])
    fix i assume "i \<in> set [0..<length cs]"
    then have "sint (nextClusterId g) + int i < 2 ^ 31" using assms by auto
    then show "sint (nextClusterId g + of_nat i) = sint (nextClusterId g) + int i"
      by (rule sint_counter_plus)
  qed
  finally show ?thesis .
qed

lemma sorted_wrt_offsets: "sorted_wrt (<) (map (\<lambda>i. (k::int) + int i) [0..<n])"
  by (simp add: sorted_wrt_map sorted_wrt_iff_nth_less)

text \<open>
  C3, as the code has it. Every call of one of the three constructors gives the new sample
  the value of \<open>nextClusterId\<close> and adds one to the counter. The counter is a 32-bit
  \<^verbatim>\<open>int\<close>: as long as the calls of a run do not take it past \<open>2 ^ 31 - 1\<close>, the samples
  of the run get the consecutive values from the counter's start on, so their
  identifiers are strictly increasing in creation order and pairwise distinct.
\<close>

theorem clusterId_increasing_below_overflow:
  assumes "sint (nextClusterId g) + int (length cs) \<le> 2 ^ 31"
  shows "clusterId (fst (call_constructor c g)) = nextClusterId g
    \<and> snd (call_constructor c g) = g\<lparr>nextClusterId := nextClusterId g + 1\<rparr>
    \<and> map (sint \<circ> clusterId) (fst (call_constructors cs g))
        = map (\<lambda>i. sint (nextClusterId g) + int i) [0..<length cs]
    \<and> sorted_wrt (<) (map (sint \<circ> clusterId) (fst (call_constructors cs g)))
    \<and> distinct (map clusterId (fst (call_constructors cs g)))"
proof -
  have ids: "map (sint \<circ> clusterId) (fst (call_constructors cs g))
        = map (\<lambda>i. sint (nextClusterId g) + int i) [0..<length cs]"
    using assms by (rule call_constructors_sint_ids)
  have sorted: "sorted_wrt (<) (map (sint \<circ> clusterId) (fst (call_constructors cs g)))"
    unfolding ids by (rule sorted_wrt_offsets)
  then have "distinct (map (sint \<circ> clusterId) (fst (call_constructors cs g)))"
    by (simp only: strict_sorted_iff)
  then have "distinct (map sint (map clusterId (fst (call_constructors cs g))))"
    by simp
  then have "distinct (map clusterId (fst (call_constructors cs g)))"
    using distinct_map [of sint "map clusterId (fst (call_constructors cs g))"] by blast
  with ids sorted show ?thesis
    by (simp add: call_constructor_clusterId call_constructor_statics)
qed

text \<open>
  C3 at a run that ends exactly at the largest \<^verbatim>\<open>int\<close>: one call of each constructor
  with the counter at \<open>2 ^ 31 - 3\<close>.
\<close>

theorem clusterId_increasing_below_overflow_witness:
  "sint (nextClusterId \<lparr>aspectRatio = Finite 1, nextClusterId = 0x7FFFFFFD\<rparr>)
      + int (length [New0, New3 1 2 3, New6 4 5 6 7 8 (Finite 2)]) \<le> 2 ^ 31
   \<and> map (sint \<circ> clusterId)
        (fst (call_constructors [New0, New3 1 2 3, New6 4 5 6 7 8 (Finite 2)]
           \<lparr>aspectRatio = Finite 1, nextClusterId = 0x7FFFFFFD\<rparr>))
      = [2147483645, 2147483646, 2147483647]
   \<and> distinct (map clusterId
        (fst (call_constructors [New0, New3 1 2 3, New6 4 5 6 7 8 (Finite 2)]
           \<lparr>aspectRatio = Finite 1, nextClusterId = 0x7FFFFFFD\<rparr>)))"
  using clusterId_increasing_below_overflow
    [of "\<lparr>aspectRatio = Finite 1, nextClusterId = 0x7FFFFFFD\<rparr>"
      "[New0, New3 1 2 3, New6 4 5 6 7 8 (Finite 2)]"]
  by (simp add: upt_rec)

text \<open>
  C3 as stated fails once the counter passes the largest \<^verbatim>\<open>int\<close>. With the counter at
  \<open>2 ^ 31 - 1\<close>, two calls give the identifiers \<open>2 ^ 31 - 1\<close> and \<open>- 2 ^ 31\<close>: not
  increasing. And of \<open>2 ^ 32 + 1\<close> calls, the first and the last give the same
  identifier: not distinct.
\<close>

theorem clusterId_overflow_counterexample:
  "\<not> sorted_wrt (<) (map (sint \<circ> clusterId)
        (fst (call_constructors [New0, New0]
           \<lparr>aspectRatio = Finite 1, nextClusterId = 0x7FFFFFFF\<rparr>)))
   \<and> \<not> distinct (map clusterId
        (fst (call_constructors (replicate (2 ^ 32 + 1) New0)
           \<lparr>aspectRatio = Finite 1, nextClusterId = 0\<rparr>)))"
proof
  show "\<not> sorted_wrt (<) (map (sint \<circ> clusterId)
        (fst (call_constructors [New0, New0]
           \<lparr>aspectRatio = Finite 1, nextClusterId = 0x7FFFFFFF\<rparr>)))"
    by (simp add: Sample0_def)
next
  let ?f = "\<lambda>i::nat. (0::int32) + of_nat i"
  have "?f 0 = ?f (2 ^ 32)" by simp
  moreover have "(0::nat) \<noteq> 2 ^ 32" by simp
  moreover have "(0::nat) \<in> {0..<2 ^ 32 + 1}" and "(2 ^ 32::nat) \<in> {0..<2 ^ 32 + 1}"
    by simp_all
  ultimately have "\<not> inj_on ?f {0..<2 ^ 32 + 1}"
    unfolding inj_on_def by blast
  then have "\<not> distinct (map ?f [0..<2 ^ 32 + 1])"
    by (simp only: distinct_map set_upt simp_thms)
  then show "\<not> distinct (map clusterId
        (fst (call_constructors (replicate (2 ^ 32 + 1) New0)
           \<lparr>aspectRatio = Finite 1, nextClusterId = 0\<rparr>)))"
    by (simp only: call_constructors_ids length_replicate statics.simps simp_thms)
qed

text \<open>
  C4. A copy of a sample is the sample, field by field: it has the original's
  \<open>clusterId\<close>, and copying leaves the statics, the counter among them, as they were.
  None of the setters changes \<open>clusterId\<close>, and there is no setter for it.
\<close>

theorem copy_keeps_clusterId:
  "fst (Sample_copy s g) = s
   \<and> clusterId (fst (Sample_copy s g)) = clusterId s
   \<and> snd (Sample_copy s g) = g
   \<and> clusterId (apply_setter m s) = clusterId s
   \<and> getClusterId (apply_setter m s) = getClusterId s"
  by (cases m)
    (simp_all add: Sample_copy_def getClusterId_def setX_def setY_def setSize_def setVx_def
      setVy_def setVSize_def setWeight_def setObject_def)

section \<open>Weight and change of size\<close>

text \<open>
  C5, as the code has it. Every constructor sets the weight to one. \<open>setWeight\<close> stores
  its argument as it is, so the weight is non-negative after the call exactly when the
  argument is; every other setter and copying leave the weight as it was.
\<close>

theorem weight_is_what_was_stored:
  "weight (fst (call_constructor c g)) = Finite 1
   \<and> nonneg (weight (fst (call_constructor c g)))
   \<and> weight (apply_setter m s) = (case m of SetWeight w' \<Rightarrow> w' | _ \<Rightarrow> weight s)
   \<and> nonneg (weight (setWeight w s)) = nonneg w
   \<and> weight (fst (Sample_copy s g)) = weight s"
proof -
  have "weight (fst (call_constructor c g)) = Finite 1"
    by (cases c) (simp_all add: Sample0_def Sample3_def Sample6_def)
  moreover have "nonneg (Finite 1)"
    by (simp add: nonneg_def)
  moreover have "weight (apply_setter m s) = (case m of SetWeight w' \<Rightarrow> w' | _ \<Rightarrow> weight s)"
    by (cases m)
      (simp_all add: setX_def setY_def setSize_def setVx_def
        setVy_def setVSize_def setWeight_def setObject_def)
  ultimately show ?thesis
    by (simp add: setWeight_def Sample_copy_def)
qed

text \<open>C5 as stated fails: \<open>setWeight (-1)\<close> on a new sample leaves the weight \<open>-1\<close>.\<close>

theorem setWeight_negative_counterexample:
  "\<not> nonneg (weight (setWeight (Finite (- 1))
       (fst (Sample0 \<lparr>aspectRatio = Finite 1, nextClusterId = 0\<rparr>))))"
  by (simp add: nonneg_def setWeight_def Sample0_def)

text \<open>
  C6, as the code has it. The constructors without a \<open>vsize\<close> argument set \<open>vsize\<close> to
  one. The constructor with six arguments and \<open>setVSize\<close> store their argument as it is,
  so \<open>vsize\<close> is positive afterwards exactly when the argument is; every other setter and
  copying leave \<open>vsize\<close> as it was.
\<close>

theorem vsize_is_what_was_stored:
  "vsize (fst (Sample0 g)) = Finite 1
   \<and> vsize (fst (Sample3 px py psize g)) = Finite 1
   \<and> positive (Finite 1)
   \<and> vsize (fst (Sample6 px py psize pvx pvy v g)) = v
   \<and> vsize (apply_setter m s) = (case m of SetVSize v' \<Rightarrow> v' | _ \<Rightarrow> vsize s)
   \<and> positive (vsize (setVSize v s)) = positive v
   \<and> vsize (fst (Sample_copy s g)) = vsize s"
proof -
  have "vsize (apply_setter m s) = (case m of SetVSize v' \<Rightarrow> v' | _ \<Rightarrow> vsize s)"
    by (cases m)
      (simp_all add: setX_def setY_def setSize_def setVx_def
        setVy_def setVSize_def setWeight_def setObject_def)
  then show ?thesis
    by (simp add: Sample0_def Sample3_def Sample6_def positive_def setVSize_def
        Sample_copy_def)
qed

text \<open>
  C6 as stated fails: the constructor with six arguments accepts a \<open>vsize\<close> of \<open>-1\<close>, and
  \<open>setVSize 0\<close> on a new sample leaves \<open>vsize\<close> at zero.
\<close>

theorem vsize_not_positive_counterexample:
  "\<not> positive (vsize (fst (Sample6 0 0 0 0 0 (Finite (- 1))
        \<lparr>aspectRatio = Finite 1, nextClusterId = 0\<rparr>)))
   \<and> \<not> positive (vsize (setVSize (Finite 0)
        (fst (Sample0 \<lparr>aspectRatio = Finite 1, nextClusterId = 0\<rparr>))))"
  by (simp add: positive_def setVSize_def Sample0_def Sample6_def)

section \<open>Order by weight\<close>



section \<open>The logistic probability\<close>

text \<open>
  C8. The probability that \<open>getProbability\<close> returns for a hyperplane distance \<open>x\<close> is
  \<open>1 / (1 + exp (a + b * x))\<close>, and it lies between zero and one for every real distance
  and all real parameters \<open>a\<close> and \<open>b\<close>.
\<close>

theorem getProbability_between_zero_and_one:
  "snd (getProbability svm_classify c x) = 1 / (1 + exp (logisticA c + logisticB c * x))
   \<and> 0 \<le> snd (getProbability svm_classify c x)
   \<and> snd (getProbability svm_classify c x) \<le> 1"
proof -
  define t where "t = logisticA c + logisticB c * x"
  have pos: "0 < 1 + exp t"
    by (simp add: add_pos_pos)
  then have "0 \<le> 1 / (1 + exp t)"
    by simp
  moreover have "1 / (1 + exp t) \<le> 1"
    using pos by (simp add: divide_le_eq_1)
  ultimately show ?thesis
    by (simp add: getProbability_def t_def)
qed

section \<open>The aspect ratio from a width and a height\<close>

text \<open>
  C9. \<open>setAspectRatio2 width height\<close> sets the shared ratio to the quotient of the height
  by the width, as doubles: the double of the real quotient \<open>height / width\<close> when the
  width is not zero, an infinity or a NaN when it is. It leaves the counter alone. The
  ratio is one static value, so after the call the height of every sample of size \<open>n\<close>,
  one constructed before the call included, is \<open>cvRound (fl (ratio * n))\<close> for the new
  ratio when that is finite, and its bounds have that height.
\<close>

theorem setAspectRatio2_is_height_by_width:
  "aspectRatio (setAspectRatio2 p width height g)
      = ddiv (fl p) (double_of_int height) (double_of_int width)
   \<and> ddiv (fl p) (double_of_int height) (double_of_int width)
      = (if width = 0
         then (if height = 0 then NaN else if 0 < sint height then PosInf else NegInf)
         else fl p (real_of_int (sint height) / real_of_int (sint width)))
   \<and> nextClusterId (setAspectRatio2 p width height g) = nextClusterId g
   \<and> (let ratio =
          (if width = 0
           then (if height = 0 then NaN else if 0 < sint height then PosInf else NegInf)
           else fl p (real_of_int (sint height) / real_of_int (sint width)));
        h = cvRound p
          (case ratio of
             Finite a \<Rightarrow> fl p (a * real_of_int (sint n))
           | PosInf \<Rightarrow> (if n = 0 then NaN else if 0 < sint n then PosInf else NegInf)
           | NegInf \<Rightarrow> (if n = 0 then NaN else if 0 < sint n then NegInf else PosInf)
           | NaN \<Rightarrow> NaN)
      in aspectRatio (setAspectRatio2 p width height g) = ratio
       \<and> getHeight p (setAspectRatio2 p width height g) (s\<lparr>sample_size := n\<rparr>) = h
       \<and> getHeight p (setAspectRatio2 p width height (snd (Sample3 px py n g)))
            (fst (Sample3 px py n g)) = h
       \<and> getBounds p (setAspectRatio2 p width height (snd (Sample3 px py n g)))
            (fst (Sample3 px py n g))
          = \<lparr>rect_x = px - int_div n 2,
             rect_y = py - int_div h 2,
             rect_width = n,
             rect_height = h\<rparr>)
   \<and> getHeight p (setAspectRatio2 p width height g) s
      = cvRound p (dmul (fl p) (ddiv (fl p) (double_of_int height) (double_of_int width))
          (double_of_int (sample_size s)))
   \<and> getHeight p (setAspectRatio2 p width height (snd (Sample3 px py n g)))
        (fst (Sample3 px py n g))
      = cvRound p (dmul (fl p) (ddiv (fl p) (double_of_int height) (double_of_int width))
          (double_of_int n))
   \<and> getBounds p (setAspectRatio2 p width height (snd (Sample3 px py n g)))
        (fst (Sample3 px py n g))
      = \<lparr>rect_x = px - int_div n 2,
         rect_y = py - int_div (cvRound p (dmul (fl p)
           (ddiv (fl p) (double_of_int height) (double_of_int width)) (double_of_int n))) 2,
         rect_width = n,
         rect_height = cvRound p (dmul (fl p)
           (ddiv (fl p) (double_of_int height) (double_of_int width)) (double_of_int n))\<rparr>"
proof -
  have old: "aspectRatio (setAspectRatio2 p width height g)
      = ddiv (fl p) (double_of_int height) (double_of_int width)
   \<and> ddiv (fl p) (double_of_int height) (double_of_int width)
      = (if width = 0
         then (if height = 0 then NaN else if 0 < sint height then PosInf else NegInf)
         else fl p (real_of_int (sint height) / real_of_int (sint width)))
   \<and> nextClusterId (setAspectRatio2 p width height g) = nextClusterId g
   \<and> getHeight p (setAspectRatio2 p width height g) s
      = cvRound p (dmul (fl p) (ddiv (fl p) (double_of_int height) (double_of_int width))
          (double_of_int (sample_size s)))
   \<and> getHeight p (setAspectRatio2 p width height (snd (Sample3 px py n g)))
        (fst (Sample3 px py n g))
      = cvRound p (dmul (fl p) (ddiv (fl p) (double_of_int height) (double_of_int width))
          (double_of_int n))
   \<and> getBounds p (setAspectRatio2 p width height (snd (Sample3 px py n g)))
        (fst (Sample3 px py n g))
      = \<lparr>rect_x = px - int_div n 2,
         rect_y = py - int_div (cvRound p (dmul (fl p)
           (ddiv (fl p) (double_of_int height) (double_of_int width)) (double_of_int n))) 2,
         rect_width = n,
         rect_height = cvRound p (dmul (fl p)
           (ddiv (fl p) (double_of_int height) (double_of_int width)) (double_of_int n))\<rparr>"
    by (simp add: setAspectRatio2_def setAspectRatio_def getHeight_def getBounds_def
        getWidth_def Sample3_def ddiv_of_ints)
  have pinned: "(let ratio =
          (if width = 0
           then (if height = 0 then NaN else if 0 < sint height then PosInf else NegInf)
           else fl p (real_of_int (sint height) / real_of_int (sint width)));
        h = cvRound p
          (case ratio of
             Finite a \<Rightarrow> fl p (a * real_of_int (sint n))
           | PosInf \<Rightarrow> (if n = 0 then NaN else if 0 < sint n then PosInf else NegInf)
           | NegInf \<Rightarrow> (if n = 0 then NaN else if 0 < sint n then NegInf else PosInf)
           | NaN \<Rightarrow> NaN)
      in aspectRatio (setAspectRatio2 p width height g) = ratio
       \<and> getHeight p (setAspectRatio2 p width height g) (s\<lparr>sample_size := n\<rparr>) = h
       \<and> getHeight p (setAspectRatio2 p width height (snd (Sample3 px py n g)))
            (fst (Sample3 px py n g)) = h
       \<and> getBounds p (setAspectRatio2 p width height (snd (Sample3 px py n g)))
            (fst (Sample3 px py n g))
          = \<lparr>rect_x = px - int_div n 2,
             rect_y = py - int_div h 2,
             rect_width = n,
             rect_height = h\<rparr>)"
    by (simp add: Let_def setAspectRatio2_def setAspectRatio_def getHeight_def getBounds_def
        getWidth_def Sample3_def ddiv_of_ints dmul_of_int)
  from old pinned show ?thesis by (intro conjI) (elim conjE | assumption)+
qed

section \<open>The grayscale filter\<close>

text \<open>
  C10. On an image of exactly one channel, \<open>applyTo\<close> returns the image itself and leaves
  it in \<^verbatim>\<open>filtered\<close>. \<open>applyInPlace\<close> is idempotent: when a call returns, the image has
  at most one channel, exactly one if it had any, and a second call returns the same
  image; when a call throws, a second call is not reached. What is asked of OpenCV is that
  the conversion to gray, when it returns, returns an image of one channel.
\<close>

theorem GrayscaleFilter_identity_and_idempotent:
  assumes "\<forall>src dst. cvtColor src = Inr dst \<longrightarrow> channels dst = 1"
  shows "(channels img = 1 \<longrightarrow> applyTo cvtColor img filtered = Inr (img, img))
    \<and> (\<forall>img'. applyInPlace cvtColor img = Inr img' \<longrightarrow>
          channels img' \<le> 1 \<and> (1 \<le> channels img \<longrightarrow> channels img' = 1)
          \<and> applyInPlace cvtColor img' = Inr img')
    \<and> (case applyInPlace cvtColor img of
          Inl e \<Rightarrow> Inl e
        | Inr img' \<Rightarrow> applyInPlace cvtColor img')
        = applyInPlace cvtColor img"
proof -
  have one: "channels img = 1 \<longrightarrow> applyTo cvtColor img filtered = Inr (img, img)"
    by (simp add: applyTo_def copyTo_def)
  have after: "channels img' \<le> 1 \<and> (1 \<le> channels img \<longrightarrow> channels img' = 1)"
    if "applyInPlace cvtColor img = Inr img'" for img'
  proof (cases "1 < channels img")
    case True
    with that have "cvtColor img = Inr img'"
      by (simp add: applyInPlace_def split: sum.splits)
    with assms have "channels img' = 1" by blast
    then show ?thesis by simp
  next
    case False
    with that have "img' = img" by (simp add: applyInPlace_def)
    with False show ?thesis by auto
  qed
  have again: "applyInPlace cvtColor img' = Inr img'"
    if "applyInPlace cvtColor img = Inr img'" for img'
    using after [OF that] by (simp add: applyInPlace_def)
  have twice: "(case applyInPlace cvtColor img of
          Inl e \<Rightarrow> Inl e
        | Inr img' \<Rightarrow> applyInPlace cvtColor img')
        = applyInPlace cvtColor img"
    using again by (cases "applyInPlace cvtColor img") simp_all
  from one after again twice show ?thesis by blast
qed

text \<open>
  C10 at a gray image of two pixels, copied as it is, and at a colour image of two
  pixels, converted by the first call and left alone by the second.
\<close>

theorem GrayscaleFilter_identity_and_idempotent_witness:
  "applyTo bgr2gray \<lparr>rows = 1, cols = 2, channels = 1, elems = [7, 9]\<rparr>
       \<lparr>rows = 0, cols = 0, channels = 1, elems = []\<rparr>
     = Inr (\<lparr>rows = 1, cols = 2, channels = 1, elems = [7, 9]\<rparr>,
            \<lparr>rows = 1, cols = 2, channels = 1, elems = [7, 9]\<rparr>)
   \<and> applyInPlace bgr2gray
       \<lparr>rows = 1, cols = 2, channels = 3, elems = [10, 20, 30, 255, 255, 255]\<rparr>
     = Inr \<lparr>rows = 1, cols = 2, channels = 1, elems = [22, 255]\<rparr>
   \<and> applyInPlace bgr2gray \<lparr>rows = 1, cols = 2, channels = 1, elems = [22, 255]\<rparr>
     = Inr \<lparr>rows = 1, cols = 2, channels = 1, elems = [22, 255]\<rparr>"
proof -
  have contract: "\<forall>src dst. bgr2gray src = Inr dst \<longrightarrow> channels dst = 1"
    by (auto simp: bgr2gray_def split: if_splits)
  have gray: "channels \<lparr>rows = 1, cols = 2, channels = 1, elems = [7, 9]\<rparr> = 1"
    by simp
  have first: "applyInPlace bgr2gray
       \<lparr>rows = 1, cols = 2, channels = 3, elems = [10, 20, 30, 255, 255, 255]\<rparr>
     = Inr \<lparr>rows = 1, cols = 2, channels = 1, elems = [22, 255]\<rparr>"
    by (simp add: applyInPlace_def bgr2gray_def)
  have copy: "applyTo bgr2gray \<lparr>rows = 1, cols = 2, channels = 1, elems = [7, 9]\<rparr>
       \<lparr>rows = 0, cols = 0, channels = 1, elems = []\<rparr>
     = Inr (\<lparr>rows = 1, cols = 2, channels = 1, elems = [7, 9]\<rparr>,
            \<lparr>rows = 1, cols = 2, channels = 1, elems = [7, 9]\<rparr>)"
    using gray GrayscaleFilter_identity_and_idempotent
      [OF contract, of "\<lparr>rows = 1, cols = 2, channels = 1, elems = [7, 9]\<rparr>"
        "\<lparr>rows = 0, cols = 0, channels = 1, elems = []\<rparr>"]
    by blast
  have second: "applyInPlace bgr2gray \<lparr>rows = 1, cols = 2, channels = 1, elems = [22, 255]\<rparr>
     = Inr \<lparr>rows = 1, cols = 2, channels = 1, elems = [22, 255]\<rparr>"
    using first GrayscaleFilter_identity_and_idempotent
      [OF contract,
        of "\<lparr>rows = 1, cols = 2, channels = 3, elems = [10, 20, 30, 255, 255, 255]\<rparr>"]
    by blast
  from copy first second show ?thesis by (intro conjI)
qed

end
